theory Spec2Isabelle
  imports Complex_Main "HOL-Library.Option_ord" "HOL-Library.Multiset"
begin

section \<open>Data model (src/models/nonprofit.py)\<close>

text \<open>
  Python floats are modelled as exact reals: every property below is about the arithmetic
  the code writes down, not about rounding. Only the attributes that the modelled functions
  read or write are kept in the records; a dataclass instance is a record value, and a
  list of nonprofits is a list of distinct objects.
\<close>

record FinancialData =
  year :: int
  total_revenue :: real
  total_expenses :: real
  total_assets :: real
  total_liabilities :: real
  net_assets :: real
  program_expenses :: real
  administrative_expenses :: real
  fundraising_expenses :: real

record SocialMediaPresence =
  platform :: string
  handle :: string
  followers :: int
  engagement_rate :: real

text \<open>
  The first sentence of \<open>MissionAlignment.explanation\<close> is kept in structured form:
  the qualitative word and the score printed after it.
\<close>

datatype alignment_label = Strong | Good | Moderate | Limited

record MissionAlignment =
  score :: real
  explanation :: "alignment_label \<times> real"
  confidence :: real

record PartnershipROI =
  estimated_value :: real
  cost_savings :: real

record Nonprofit =
  ein :: string
  name :: string
  mission_statement :: string
  website :: "string option"
  financial_history :: "FinancialData list"
  social_media :: "SocialMediaPresence list"
  programs :: "string list"
  leadership :: "string list"
  mission_alignment :: "MissionAlignment option"
  partnership_roi :: "PartnershipROI option"
  overall_score :: "real option"
  ranking :: "nat option"
  data_quality_score :: real

text \<open>\<open>FinancialData.program_expense_ratio\<close> and \<open>FinancialData.overhead_ratio\<close>.\<close>

definition program_expense_ratio :: "FinancialData \<Rightarrow> real" where
  "program_expense_ratio f =
     (if total_expenses f > 0 then program_expenses f / total_expenses f else 0)"

definition overhead_ratio :: "FinancialData \<Rightarrow> real" where
  "overhead_ratio f =
     (if total_expenses f > 0
      then (let overhead = administrative_expenses f + fundraising_expenses f
            in overhead / total_expenses f)
      else 0)"

text \<open>
  \<open>max(self.financial_history, key=lambda x: x.year)\<close>: Python's \<open>max\<close> walks the
  list and replaces the running maximum only by a strictly larger key, so the first entry
  of the largest year is returned.
\<close>

fun max_by_year :: "FinancialData \<Rightarrow> FinancialData list \<Rightarrow> FinancialData" where
  "max_by_year best [] = best"
| "max_by_year best (f # fs) = max_by_year (if year f > year best then f else best) fs"

definition get_latest_financials :: "Nonprofit \<Rightarrow> FinancialData option" where
  "get_latest_financials np =
     (case financial_history np of [] \<Rightarrow> None | f # fs \<Rightarrow> Some (max_by_year f fs))"

definition calculate_stability_score :: "Nonprofit \<Rightarrow> real" where
  "calculate_stability_score np =
     (if length (financial_history np) < 2 then 0.5
      else case get_latest_financials np of
        None \<Rightarrow> 0.5
      | Some latest \<Rightarrow>
          (let score = 0;
               score = (if total_revenue latest > 0 then score + 0.3 else score);
               score = (if total_liabilities latest > 0
                        then (let ratio = total_assets latest / total_liabilities latest
                              in if ratio > 2 then score + 0.3
                                 else if ratio > 1 then score + 0.2
                                 else score)
                        else score);
               score = score + program_expense_ratio latest * 0.4
           in min score 1.0))"

section \<open>Ranking engine (src/core/ranking_engine.py)\<close>

record RankingCriteria =
  mission_weight :: real
  roi_weight :: real
  stability_weight :: real
  capacity_weight :: real
  data_quality_weight :: real

text \<open>The dataclass defaults of \<open>RankingCriteria\<close>.\<close>

definition RankingCriteria_default :: RankingCriteria where
  "RankingCriteria_default =
     \<lparr>mission_weight = 0.35, roi_weight = 0.25, stability_weight = 0.15,
      capacity_weight = 0.15, data_quality_weight = 0.10\<rparr>"

text \<open>
  \<open>revenues[i] <= revenues[i+1] for i in range(len(revenues)-1)\<close> over the last three
  entries of the history (\<open>financial_history[-3:]\<close>).
\<close>

definition last3_revenues :: "Nonprofit \<Rightarrow> real list" where
  "last3_revenues np =
     map total_revenue (drop (length (financial_history np) - 3) (financial_history np))"

definition revenues_non_decreasing :: "real list \<Rightarrow> bool" where
  "revenues_non_decreasing revenues =
     list_all (\<lambda>i. revenues ! i \<le> revenues ! (i + 1)) [0 ..< length revenues - 1]"

definition calculate_capacity_score :: "Nonprofit \<Rightarrow> real" where
  "calculate_capacity_score np =
     (let score = 0.5 in
      case get_latest_financials np of
        None \<Rightarrow> min 1.0 score
      | Some latest_financials \<Rightarrow>
          (let score = (if total_revenue latest_financials > 5000000 then score + 0.2
                        else if total_revenue latest_financials > 1000000 then score + 0.15
                        else if total_revenue latest_financials > 100000 then score + 0.1
                        else score);
               score = (if program_expense_ratio latest_financials > 0.8 then score + 0.2
                        else if program_expense_ratio latest_financials > 0.7 then score + 0.1
                        else score);
               score = (if length (financial_history np) \<ge> 3
                           \<and> revenues_non_decreasing (last3_revenues np)
                        then score + 0.1 else score)
           in min 1.0 score))"

text \<open>
  \<open>_calculate_overall_score\<close>: the \<open>scores\<close> dictionary is the five local values; an
  attribute holding a dataclass instance is truthy, \<open>None\<close> is falsy.
\<close>

definition calculate_overall_score :: "RankingCriteria \<Rightarrow> Nonprofit \<Rightarrow> real" where
  "calculate_overall_score criteria np =
     (let mission = (case mission_alignment np of Some ma \<Rightarrow> score ma | None \<Rightarrow> 0);
          roi = (case partnership_roi np of
                   Some pr \<Rightarrow> (let roi_ratio = estimated_value pr / 100000
                               in min 1.0 roi_ratio)
                 | None \<Rightarrow> 0);
          stability = calculate_stability_score np;
          capacity = calculate_capacity_score np;
          data_quality = data_quality_score np
      in mission * mission_weight criteria
         + roi * roi_weight criteria
         + stability * stability_weight criteria
         + capacity * capacity_weight criteria
         + data_quality * data_quality_weight criteria)"

text \<open>
  \<open>rank_nonprofits\<close>. The two analyzers call an embedding model and read a configuration
  file; they are parameters here, and either may raise. \<open>score_nonprofit\<close> is the body of
  the \<open>try\<close> block: it returns the nonprofit as mutated so far together with the
  exception when one is raised. The \<open>except Exception\<close> handler is \<open>score_or_zero\<close>.
\<close>

datatype error = ScoringError string | ZeroDivisionError | TypeError

definition score_nonprofit ::
  "(Nonprofit \<Rightarrow> error + MissionAlignment) \<Rightarrow> (Nonprofit \<Rightarrow> error + PartnershipROI)
     \<Rightarrow> RankingCriteria \<Rightarrow> Nonprofit \<Rightarrow> (error \<times> Nonprofit) + Nonprofit" where
  "score_nonprofit analyze_alignment calculate_roi criteria nonprofit =
     (case analyze_alignment nonprofit of
        Inl e \<Rightarrow> Inl (e, nonprofit)
      | Inr ma \<Rightarrow>
          (let nonprofit = nonprofit\<lparr>mission_alignment := Some ma\<rparr> in
           case calculate_roi nonprofit of
             Inl e \<Rightarrow> Inl (e, nonprofit)
           | Inr pr \<Rightarrow>
               (let nonprofit = nonprofit\<lparr>partnership_roi := Some pr\<rparr>;
                    overall = calculate_overall_score criteria nonprofit
                in Inr (nonprofit\<lparr>overall_score := Some overall\<rparr>))))"

definition score_or_zero ::
  "(Nonprofit \<Rightarrow> error + MissionAlignment) \<Rightarrow> (Nonprofit \<Rightarrow> error + PartnershipROI)
     \<Rightarrow> RankingCriteria \<Rightarrow> Nonprofit \<Rightarrow> Nonprofit" where
  "score_or_zero analyze_alignment calculate_roi criteria nonprofit =
     (case score_nonprofit analyze_alignment calculate_roi criteria nonprofit of
        Inr scored \<Rightarrow> scored
      | Inl (e, partly) \<Rightarrow> partly\<lparr>overall_score := Some 0\<rparr>)"

text \<open>
  \<open>list.sort(key=..., reverse=True)\<close> keeps the order of equal keys: CPython reverses
  the list, sorts it stably in ascending order and reverses it again.
\<close>

definition sort_reverse :: "('a \<Rightarrow> 'k::linorder) \<Rightarrow> 'a list \<Rightarrow> 'a list" where
  "sort_reverse key xs = rev (sort_key key (rev xs))"

text \<open>\<open>for rank, nonprofit in enumerate(scored_nonprofits, 1)\<close>.\<close>

definition assign_rankings :: "Nonprofit list \<Rightarrow> Nonprofit list" where
  "assign_rankings scored_nonprofits =
     map (\<lambda>(rank, nonprofit). nonprofit\<lparr>ranking := Some rank\<rparr>)
       (enumerate 1 scored_nonprofits)"

definition rank_nonprofits ::
  "(Nonprofit \<Rightarrow> error + MissionAlignment) \<Rightarrow> (Nonprofit \<Rightarrow> error + PartnershipROI)
     \<Rightarrow> RankingCriteria \<Rightarrow> Nonprofit list \<Rightarrow> Nonprofit list" where
  "rank_nonprofits analyze_alignment calculate_roi criteria nonprofits =
     (if nonprofits = [] then []
      else (let scored_nonprofits =
                  map (score_or_zero analyze_alignment calculate_roi criteria) nonprofits;
                scored_nonprofits = sort_reverse overall_score scored_nonprofits
            in assign_rankings scored_nonprofits))"









section \<open>Mission alignment (src/analyzers/mission_alignment.py)\<close>

text \<open>
  The semantic similarity and the mean service overlap come from the embedding model and
  the keyword configuration; they and the configured \<open>scoring_weights\<close> are parameters of
  \<open>analyze_alignment\<close>. Everything else is computed from the nonprofit as in the source.
  The keyword score and the program alignment are computed by the source but do not enter
  the score. Of each leadership entry only its title is kept.
\<close>

record scoring_weights =
  w_mission_alignment :: real
  w_service_overlap :: real
  w_geographic_coverage :: real
  w_organizational_capacity :: real
  w_partnership_history :: real

definition geographic_alignment :: "Nonprofit \<Rightarrow> real" where
  "geographic_alignment np = 0.7"

definition capacity_score :: "Nonprofit \<Rightarrow> real" where
  "capacity_score np =
     (let score = 0.5;
          score = (case get_latest_financials np of
                     None \<Rightarrow> score
                   | Some latest_financials \<Rightarrow>
                       (let score = (if total_revenue latest_financials > 1000000
                                     then score + 0.2
                                     else if total_revenue latest_financials > 100000
                                     then score + 0.1 else score)
                        in if program_expense_ratio latest_financials > 0.75 then score + 0.2
                           else if program_expense_ratio latest_financials > 0.65
                           then score + 0.1 else score));
          score = (if social_media np \<noteq> []
                   then (let active_accounts =
                               length (filter (\<lambda>sm. followers sm > 100) (social_media np))
                         in score + min 0.1 (real active_accounts * 0.02))
                   else score)
      in min 1.0 score)"

definition partnership_potential :: "Nonprofit \<Rightarrow> real" where
  "partnership_potential np = calculate_stability_score np"

definition calculate_confidence :: "Nonprofit \<Rightarrow> real" where
  "calculate_confidence np =
     (let confidence = 0;
          confidence = (if mission_statement np \<noteq> [] then confidence + 0.3 else confidence);
          confidence = (if programs np \<noteq> [] then confidence + 0.2 else confidence);
          confidence = (if financial_history np \<noteq> [] then confidence + 0.2 else confidence);
          confidence = (if website np \<noteq> None \<and> website np \<noteq> Some []
                        then confidence + 0.1 else confidence);
          confidence = (if social_media np \<noteq> [] then confidence + 0.1 else confidence);
          confidence = (if leadership np \<noteq> [] then confidence + 0.1 else confidence)
      in min 1.0 confidence)"

text \<open>
  The overall assessment of \<open>_generate_explanation\<close>: the score it labels and prints is
  read from \<open>nonprofit.mission_alignment\<close>, the attribute of the nonprofit it is given.
\<close>

definition generate_explanation :: "Nonprofit \<Rightarrow> alignment_label \<times> real" where
  "generate_explanation nonprofit =
     (let overall_score =
            (case mission_alignment nonprofit of Some ma \<Rightarrow> score ma | None \<Rightarrow> 0)
      in if overall_score > 0.8 then (Strong, overall_score)
         else if overall_score > 0.6 then (Good, overall_score)
         else if overall_score > 0.4 then (Moderate, overall_score)
         else (Limited, overall_score))"

definition analyze_alignment ::
  "scoring_weights \<Rightarrow> real \<Rightarrow> real \<Rightarrow> Nonprofit \<Rightarrow> MissionAlignment" where
  "analyze_alignment weights semantic_score mean_service_overlap nonprofit =
     (let overall_score =
              w_mission_alignment weights * semantic_score
            + w_service_overlap weights * mean_service_overlap
            + w_geographic_coverage weights * geographic_alignment nonprofit
            + w_organizational_capacity weights * capacity_score nonprofit
            + w_partnership_history weights * partnership_potential nonprofit;
          explanation = generate_explanation nonprofit;
          confidence = calculate_confidence nonprofit
      in \<lparr>score = min 1.0 overall_score, explanation = explanation,
          confidence = confidence\<rparr>)"

text \<open>
  \<open>explain_ranking\<close>, the mission-alignment lines: the stored explanation is copied into
  the report when the nonprofit has a mission alignment.
\<close>

definition explain_ranking_mission :: "Nonprofit \<Rightarrow> (alignment_label \<times> real) option" where
  "explain_ranking_mission nonprofit =
     (case mission_alignment nonprofit of
        Some ma \<Rightarrow> Some (explanation ma)
      | None \<Rightarrow> None)"

section \<open>Geographic tiering (api/final_search.py)\<close>

text \<open>
  \<open>str.lower()\<close> on ASCII text; city and state names of the registry are ASCII. The keys
  of a search result carry the prefix \<open>org_\<close>: \<open>org_city\<close> is \<open>org.get('city', '')\<close>
  with the default already applied, \<open>org_score\<close> is \<open>org.get('score', 0)\<close>.
\<close>

definition lower_char :: "char \<Rightarrow> char" where
  "lower_char c =
     (let n = (of_char c :: nat) in if 65 \<le> n \<and> n \<le> 90 then char_of (n + 32) else c)"

definition lower :: "string \<Rightarrow> string" where
  "lower s = map lower_char s"

record organization =
  org_ein :: string
  org_name :: string
  org_city :: string
  org_state :: string
  org_ntee_code :: "string option"
  org_score :: real

record org_info = organization +
  distance :: string
  priority :: nat

definition make_org_info :: "organization \<Rightarrow> string \<Rightarrow> nat \<Rightarrow> org_info" where
  "make_org_info org d p = organization.extend org \<lparr>distance = d, priority = p\<rparr>"

record location =
  city :: string
  county :: string
  state :: string

text \<open>
  The loop of \<open>search_by_location\<close> that fills \<open>exact_city\<close>, \<open>same_county\<close> and
  \<open>same_state\<close>. \<open>city and ...\<close> is false for the empty string; \<open>in nearby_cities\<close> is
  list membership by string equality. An organization that passes none of the three tests
  is appended to no list.
\<close>

fun filter_by_location ::
  "location \<Rightarrow> string list \<Rightarrow> organization list
     \<Rightarrow> org_info list \<times> org_info list \<times> org_info list
     \<Rightarrow> org_info list \<times> org_info list \<times> org_info list" where
  "filter_by_location loc nearby_cities [] (exact_city, same_county, same_state) =
     (exact_city, same_county, same_state)"
| "filter_by_location loc nearby_cities (org # orgs) (exact_city, same_county, same_state) =
     (if city loc \<noteq> [] \<and> lower (city loc) = lower (org_city org)
      then filter_by_location loc nearby_cities orgs
             (exact_city @ [make_org_info org (''In '' @ city loc) 1], same_county, same_state)
      else if org_city org \<in> set nearby_cities
      then filter_by_location loc nearby_cities orgs
             (exact_city, same_county @ [make_org_info org (''In '' @ county loc) 2], same_state)
      else if org_state org = state loc
      then filter_by_location loc nearby_cities orgs
             (exact_city, same_county, same_state @ [make_org_info org (''In '' @ state loc) 3])
      else filter_by_location loc nearby_cities orgs (exact_city, same_county, same_state))"

record search_response =
  results :: "org_info list"
  count_city :: nat
  count_county :: nat
  count_state :: nat
  count_total :: nat

definition search_by_location ::
  "location \<Rightarrow> string list \<Rightarrow> organization list \<Rightarrow> search_response" where
  "search_by_location loc nearby_cities organizations =
     (case filter_by_location loc nearby_cities organizations ([], [], []) of
        (exact_city, same_county, same_state) \<Rightarrow>
          (let exact_city = sort_reverse org_score exact_city;
               same_county = sort_reverse org_score same_county;
               same_state = sort_reverse org_score same_state;
               all_results = take 10 exact_city @ take 8 same_county @ take 2 same_state
           in \<lparr>results = all_results, count_city = length exact_city,
               count_county = length same_county, count_state = length same_state,
               count_total = length organizations\<rparr>))"

text \<open>
  The three tests of the loop, each with the tests before it failed, and the remaining case
  in which the organization is appended to no list.
\<close>

abbreviation in_exact_city :: "location \<Rightarrow> organization \<Rightarrow> bool" where
  "in_exact_city loc org \<equiv> city loc \<noteq> [] \<and> lower (city loc) = lower (org_city org)"

abbreviation in_same_county :: "location \<Rightarrow> string list \<Rightarrow> organization \<Rightarrow> bool" where
  "in_same_county loc nearby_cities org \<equiv>
     \<not> in_exact_city loc org \<and> org_city org \<in> set nearby_cities"

abbreviation in_same_state :: "location \<Rightarrow> string list \<Rightarrow> organization \<Rightarrow> bool" where
  "in_same_state loc nearby_cities org \<equiv>
     \<not> in_exact_city loc org \<and> org_city org \<notin> set nearby_cities
     \<and> org_state org = state loc"

abbreviation in_no_tier :: "location \<Rightarrow> string list \<Rightarrow> organization \<Rightarrow> bool" where
  "in_no_tier loc nearby_cities org \<equiv>
     \<not> in_exact_city loc org \<and> org_city org \<notin> set nearby_cities
     \<and> org_state org \<noteq> state loc"

section \<open>Example records\<close>

definition fin_2021 :: FinancialData where
  "fin_2021 = \<lparr>year = 2021, total_revenue = 200000, total_expenses = 100000,
     total_assets = 300000, total_liabilities = 100000, net_assets = 200000,
     program_expenses = 90000, administrative_expenses = 5000,
     fundraising_expenses = 5000\<rparr>"

definition fin_2022 :: FinancialData where
  "fin_2022 = \<lparr>year = 2022, total_revenue = 250000, total_expenses = 100000,
     total_assets = 150000, total_liabilities = 100000, net_assets = 50000,
     program_expenses = 50000, administrative_expenses = 30000,
     fundraising_expenses = 20000\<rparr>"

definition np_no_history :: Nonprofit where
  "np_no_history = \<lparr>ein = ''131624100'', name = ''Harbor Relief'',
     mission_statement = ''disaster relief'', website = None, financial_history = [],
     social_media = [], programs = [], leadership = [], mission_alignment = None,
     partnership_roi = None, overall_score = None, ranking = None,
     data_quality_score = 1\<rparr>"

definition np_two_years :: Nonprofit where
  "np_two_years = np_no_history\<lparr>ein := ''530196605'', name := ''Valley Food Bank'',
     financial_history := [fin_2021, fin_2022]\<rparr>"

definition org_A :: Nonprofit where
  "org_A = np_no_history\<lparr>
     mission_alignment := Some \<lparr>score = 0.9, explanation = (Strong, 0.9), confidence = 0.3\<rparr>,
     partnership_roi := Some \<lparr>estimated_value = 0, cost_savings = 0\<rparr>\<rparr>"



definition example_roi :: "Nonprofit \<Rightarrow> error + PartnershipROI" where
  "example_roi np = Inr \<lparr>estimated_value = 0, cost_savings = 0\<rparr>"



definition example_weights :: scoring_weights where
  "example_weights = \<lparr>w_mission_alignment = 0.5, w_service_overlap = 0.3,
     w_geographic_coverage = 0.1, w_organizational_capacity = 0.05,
     w_partnership_history = 0.05\<rparr>"

text \<open>
  ZIP 75201 resolves to Dallas, Dallas County, TX; the cities of the table in that county
  are Carrollton, Dallas, Irving and Richardson.
\<close>

definition loc_dallas :: location where
  "loc_dallas = \<lparr>city = ''Dallas'', county = ''Dallas County'', state = ''TX''\<rparr>"

definition nearby_dallas :: "string list" where
  "nearby_dallas = [''Carrollton'', ''Dallas'', ''Irving'', ''Richardson'']"

definition org_dallas :: organization where
  "org_dallas = \<lparr>org_ein = ''750000001'', org_name = ''Dallas Food Bank'',
     org_city = ''DALLAS'', org_state = ''TX'', org_ntee_code = Some ''K31'', org_score = 5\<rparr>"

definition org_irving :: organization where
  "org_irving = \<lparr>org_ein = ''750000002'', org_name = ''Irving Food Pantry'',
     org_city = ''Irving'', org_state = ''TX'', org_ntee_code = Some ''K31'', org_score = 4\<rparr>"

definition org_irving_upper :: organization where
  "org_irving_upper = org_irving\<lparr>org_city := ''IRVING''\<rparr>"

definition org_austin :: organization where
  "org_austin = \<lparr>org_ein = ''740000003'', org_name = ''Austin Food Bank'',
     org_city = ''AUSTIN'', org_state = ''TX'', org_ntee_code = None, org_score = 3\<rparr>"

definition org_miami :: organization where
  "org_miami = \<lparr>org_ein = ''590000004'', org_name = ''Miami Food Bank'',
     org_city = ''MIAMI'', org_state = ''FL'', org_ntee_code = None, org_score = 9\<rparr>"

definition full_local_tiers :: "organization list" where
  "full_local_tiers = replicate 10 org_dallas @ replicate 8 org_irving @ [org_austin]"

definition three_state_orgs :: "organization list" where
  "three_state_orgs =
     [org_austin\<lparr>org_score := 1\<rparr>, org_austin\<lparr>org_score := 5\<rparr>, org_austin\<lparr>org_score := 3\<rparr>]"

section \<open>Sub-scores\<close>

lemma program_expense_ratio_zero_expenses:
  "total_expenses f = 0 \<Longrightarrow> program_expense_ratio f = 0 \<and> overhead_ratio f = 0"
  by (simp add: program_expense_ratio_def overhead_ratio_def)

lemma max_by_year_mem: "max_by_year b fs \<in> set (b # fs)"
  by (induction fs arbitrary: b) (auto split: if_splits)

lemma max_by_year_ge: "year b \<le> year (max_by_year b fs)"
proof (induction fs arbitrary: b)
  case Nil
  show ?case by simp
next
  case (Cons f fs)
  have "year b \<le> year (if year f > year b then f else b)" by simp
  also have "\<dots> \<le> year (max_by_year (if year f > year b then f else b) fs)"
    by (rule Cons.IH)
  finally show ?case by simp
qed

lemma max_by_year_max: "g \<in> set fs \<Longrightarrow> year g \<le> year (max_by_year b fs)"
proof (induction fs arbitrary: b)
  case Nil
  then show ?case by simp
next
  case (Cons f fs)
  show ?case
  proof (cases "g = f")
    case True
    have "year f \<le> year (if year f > year b then f else b)" by simp
    also have "\<dots> \<le> year (max_by_year (if year f > year b then f else b) fs)"
      by (rule max_by_year_ge)
    finally show ?thesis using True by simp
  next
    case False
    with Cons.prems have "g \<in> set fs" by simp
    then show ?thesis using Cons.IH by simp
  qed
qed

lemma get_latest_financials_Some:
  assumes "financial_history np \<noteq> []"
  shows "\<exists>latest. get_latest_financials np = Some latest
           \<and> latest \<in> set (financial_history np)
           \<and> list_all (\<lambda>g. year g \<le> year latest) (financial_history np)"
proof (cases "financial_history np")
  case Nil
  with assms show ?thesis by simp
next
  case (Cons f fs)
  have "get_latest_financials np = Some (max_by_year f fs)"
    by (simp add: get_latest_financials_def Cons)
  moreover have "max_by_year f fs \<in> set (financial_history np)"
    using max_by_year_mem [of f fs] by (simp add: Cons)
  moreover have "list_all (\<lambda>g. year g \<le> year (max_by_year f fs)) (financial_history np)"
    using max_by_year_ge [of f fs] max_by_year_max [of _ fs f]
    by (auto simp: Cons list_all_iff)
  ultimately show ?thesis by blast
qed

lemma capacity_score_bounds:
  "1/2 \<le> calculate_capacity_score np \<and> calculate_capacity_score np \<le> 1"
  by (simp add: calculate_capacity_score_def Let_def split: option.split)

text \<open>
  Claim C9. For every nonprofit, also one with no financial history, the capacity score of
  the ranking engine lies between 0.5 and 1.0: the base is 0.5, every bonus is
  nonnegative, and the result is capped at 1.0.
\<close>

theorem capacity_score_in_range:
  "0.5 \<le> calculate_capacity_score np \<and> calculate_capacity_score np \<le> 1.0"
  using capacity_score_bounds [of np] by simp

lemma stability_latest:
  assumes "get_latest_financials np = Some latest" "\<not> length (financial_history np) < 2"
  shows "calculate_stability_score np =
      min 1 ((if total_revenue latest > 0 then 0.3 else 0)
            + (if total_liabilities latest > 0 \<and> total_assets latest / total_liabilities latest > 2
               then 0.3
               else if total_liabilities latest > 0
                       \<and> total_assets latest / total_liabilities latest > 1
               then 0.2 else 0)
            + program_expense_ratio latest * 0.4)"
  using assms by (simp add: calculate_stability_score_def Let_def min.commute)

lemma np_two_years_latest: "get_latest_financials np_two_years = Some fin_2022"
  by (simp add: get_latest_financials_def np_two_years_def np_no_history_def fin_2021_def fin_2022_def)

lemma np_two_years_stab: "calculate_stability_score np_two_years = 0.7"
  by (simp add: calculate_stability_score_def np_two_years_latest program_expense_ratio_def)
     (simp add: np_two_years_def np_no_history_def fin_2022_def)

text \<open>
  Claim C4 as stated says that the stability score is 0 for an organization with fewer
  than two years of financial history. The code returns 0.5 there: an organization with
  no history at all is a concrete input.
\<close>

theorem stability_score_short_history_counterexample:
  "length (financial_history np_no_history) < 2 \<and> calculate_stability_score np_no_history \<noteq> 0"
  by (simp add: calculate_stability_score_def np_no_history_def)

text \<open>
  Claim C4, amended. The stability score is 0.5 if the organization has fewer than two
  years of financial history. Otherwise the latest period exists (an entry of the history
  of the largest year) and the score is the sum of 0.3 if its total revenue is positive,
  0.3 if its liabilities are positive and assets / liabilities exceeds 2 (0.2 if it
  exceeds 1), and its program expense ratio times 0.4, capped at 1.0.
\<close>

theorem stability_score_amended:
  "(length (financial_history np) < 2 \<longrightarrow> calculate_stability_score np = 0.5) \<and>
   (length (financial_history np) \<ge> 2 \<longrightarrow>
      (\<exists>latest. get_latest_financials np = Some latest
         \<and> latest \<in> set (financial_history np)
         \<and> list_all (\<lambda>g. year g \<le> year latest) (financial_history np)
         \<and> calculate_stability_score np =
             min 1 ((if total_revenue latest > 0 then 0.3 else 0)
                    + (if total_liabilities latest > 0
                          \<and> total_assets latest / total_liabilities latest > 2
                       then 0.3
                       else if total_liabilities latest > 0
                               \<and> total_assets latest / total_liabilities latest > 1
                       then 0.2 else 0)
                    + program_expense_ratio latest * 0.4)))"
proof (intro conjI impI)
  assume "length (financial_history np) < 2"
  then show "calculate_stability_score np = 0.5"
    by (simp add: calculate_stability_score_def)
next
  assume len: "length (financial_history np) \<ge> 2"
  then have ne: "financial_history np \<noteq> []" by auto
  from get_latest_financials_Some [OF ne] obtain latest
    where l: "get_latest_financials np = Some latest"
      and m: "latest \<in> set (financial_history np)"
      and g: "list_all (\<lambda>g. year g \<le> year latest) (financial_history np)"
    by blast
  from len have nl: "\<not> length (financial_history np) < 2" by simp
  show "\<exists>latest. get_latest_financials np = Some latest
         \<and> latest \<in> set (financial_history np)
         \<and> list_all (\<lambda>g. year g \<le> year latest) (financial_history np)
         \<and> calculate_stability_score np =
             min 1 ((if total_revenue latest > 0 then 0.3 else 0)
                    + (if total_liabilities latest > 0
                          \<and> total_assets latest / total_liabilities latest > 2
                       then 0.3
                       else if total_liabilities latest > 0
                               \<and> total_assets latest / total_liabilities latest > 1
                       then 0.2 else 0)
                    + program_expense_ratio latest * 0.4)"
    using l m g stability_latest [OF l nl] by (intro exI [of _ latest]) simp
qed

theorem stability_score_amended_witness:
  "length (financial_history np_no_history) < 2 \<and> calculate_stability_score np_no_history = 0.5
   \<and> length (financial_history np_two_years) \<ge> 2
   \<and> calculate_stability_score np_two_years = 0.7"
  using stability_score_amended [of np_no_history] stability_score_amended [of np_two_years]
  by (simp add: np_two_years_stab) (simp add: np_no_history_def np_two_years_def)

lemma weighted_sum_unit_interval:
  fixes m r s c d :: real
  assumes "0 \<le> m" "m \<le> 1" "0 \<le> r" "r \<le> 1" "0 \<le> s" "s \<le> 1"
    "0 \<le> c" "c \<le> 1" "0 \<le> d" "d \<le> 1"
  shows "0 \<le> m * 0.35 + r * 0.25 + s * 0.15 + c * 0.15 + d * 0.10"
    and "m * 0.35 + r * 0.25 + s * 0.15 + c * 0.15 + d * 0.10 \<le> 1"
  using assms by simp_all

lemma org_A_stability: "calculate_stability_score org_A = 0.5"
  by (simp add: calculate_stability_score_def org_A_def np_no_history_def)

lemma org_A_capacity: "calculate_capacity_score org_A = 0.5"
  by (simp add: calculate_capacity_score_def get_latest_financials_def org_A_def
        np_no_history_def)

text \<open>
  Claim C2. The overall score is mission_weight * mission + roi_weight * min(1,
  roi_estimate / 100000) + stability_weight * stability + capacity_weight * capacity +
  data_quality_weight * data_quality (a missing mission alignment or ROI counts 0); the
  default weights are 0.35, 0.25, 0.15, 0.15 and 0.10; and with the default weights, when
  each of the five sub-scores lies in [0, 1], so does the overall score.
\<close>

theorem overall_score_weighted_sum:
  "calculate_overall_score criteria np =
       mission_weight criteria * (case mission_alignment np of None \<Rightarrow> 0 | Some ma \<Rightarrow> score ma)
     + roi_weight criteria
         * (case partnership_roi np of None \<Rightarrow> 0
            | Some pr \<Rightarrow> min 1 (estimated_value pr / 100000))
     + stability_weight criteria * calculate_stability_score np
     + capacity_weight criteria * calculate_capacity_score np
     + data_quality_weight criteria * data_quality_score np
   \<and> (mission_weight RankingCriteria_default, roi_weight RankingCriteria_default,
      stability_weight RankingCriteria_default, capacity_weight RankingCriteria_default,
      data_quality_weight RankingCriteria_default) = (0.35, 0.25, 0.15, 0.15, 0.10)
   \<and> ((case mission_alignment np of None \<Rightarrow> 0 | Some ma \<Rightarrow> score ma) \<in> {0..1}
        \<and> (case partnership_roi np of None \<Rightarrow> 0
            | Some pr \<Rightarrow> min 1 (estimated_value pr / 100000)) \<in> {0..1}
        \<and> calculate_stability_score np \<in> {0..1}
        \<and> calculate_capacity_score np \<in> {0..1}
        \<and> data_quality_score np \<in> {0..1}
      \<longrightarrow> calculate_overall_score RankingCriteria_default np \<in> {0..1})"
proof (intro conjI impI)
  show "calculate_overall_score criteria np =
       mission_weight criteria * (case mission_alignment np of None \<Rightarrow> 0 | Some ma \<Rightarrow> score ma)
     + roi_weight criteria
         * (case partnership_roi np of None \<Rightarrow> 0
            | Some pr \<Rightarrow> min 1 (estimated_value pr / 100000))
     + stability_weight criteria * calculate_stability_score np
     + capacity_weight criteria * calculate_capacity_score np
     + data_quality_weight criteria * data_quality_score np"
    by (simp add: calculate_overall_score_def Let_def mult.commute split: option.split)
  show "(mission_weight RankingCriteria_default, roi_weight RankingCriteria_default,
      stability_weight RankingCriteria_default, capacity_weight RankingCriteria_default,
      data_quality_weight RankingCriteria_default) = (0.35, 0.25, 0.15, 0.15, 0.10)"
    by (simp add: RankingCriteria_default_def)
next
  let ?m = "case mission_alignment np of None \<Rightarrow> 0 | Some ma \<Rightarrow> score ma"
  let ?r = "case partnership_roi np of None \<Rightarrow> 0
            | Some pr \<Rightarrow> min 1 (estimated_value pr / 100000)"
  assume h: "?m \<in> {0..1} \<and> ?r \<in> {0..1} \<and> calculate_stability_score np \<in> {0..1}
     \<and> calculate_capacity_score np \<in> {0..1} \<and> data_quality_score np \<in> {0..1}"
  have eq: "calculate_overall_score RankingCriteria_default np =
      ?m * 0.35 + ?r * 0.25 + calculate_stability_score np * 0.15
      + calculate_capacity_score np * 0.15 + data_quality_score np * 0.10"
    by (simp add: calculate_overall_score_def RankingCriteria_default_def Let_def
          split: option.split)
  from h have "0 \<le> ?m" "?m \<le> 1" "0 \<le> ?r" "?r \<le> 1"
    "0 \<le> calculate_stability_score np" "calculate_stability_score np \<le> 1"
    "0 \<le> calculate_capacity_score np" "calculate_capacity_score np \<le> 1"
    "0 \<le> data_quality_score np" "data_quality_score np \<le> 1"
    by simp_all
  from weighted_sum_unit_interval [OF this]
  show "calculate_overall_score RankingCriteria_default np \<in> {0..1}"
    unfolding eq by simp
qed

theorem overall_score_weighted_sum_witness:
  "calculate_stability_score org_A \<in> {0..1} \<and> calculate_capacity_score org_A \<in> {0..1}
   \<and> calculate_overall_score RankingCriteria_default org_A = 0.565
   \<and> calculate_overall_score RankingCriteria_default org_A \<in> {0..1}"
  using overall_score_weighted_sum [of RankingCriteria_default org_A]
  by (simp add: org_A_stability org_A_capacity)
     (simp add: org_A_def np_no_history_def RankingCriteria_default_def)

section \<open>Ranking\<close>

lemma sort_reverse_stable:
  "filter (\<lambda>y. key y = k) (sort_reverse key xs) = filter (\<lambda>y. key y = k) xs"
proof -
  have "filter (\<lambda>y. key y = k) (sort_reverse key xs)
      = rev (filter (\<lambda>y. key y = k) (sort_key key (rev xs)))"
    by (simp add: sort_reverse_def rev_filter)
  also have "\<dots> = rev (filter (\<lambda>y. key y = k) (rev xs))"
    by (simp only: sort_key_stable)
  also have "\<dots> = filter (\<lambda>y. key y = k) xs"
    by (simp add: rev_filter)
  finally show ?thesis .
qed

lemma sort_reverse_descending: "sorted_wrt (\<ge>) (map key (sort_reverse key xs))"
proof -
  have "sorted (map key (sort_key key (rev xs)))" by (rule sorted_sort_key)
  then have "sorted_wrt (\<lambda>x y. y \<ge> x) (map key (sort_key key (rev xs)))"
    by simp
  then have "sorted_wrt (\<ge>) (rev (map key (sort_key key (rev xs))))"
    by (simp only: sorted_wrt_rev)
  moreover have "map key (sort_reverse key xs) = rev (map key (sort_key key (rev xs)))"
    by (simp add: sort_reverse_def rev_map)
  ultimately show ?thesis by simp
qed

lemma mset_sort_reverse: "mset (sort_reverse key xs) = mset xs"
  by (simp add: sort_reverse_def)

lemma set_sort_reverse: "set (sort_reverse key xs) = set xs"
  by (simp add: sort_reverse_def)

lemma length_sort_reverse: "length (sort_reverse key xs) = length xs"
  by (simp add: sort_reverse_def)

lemma assign_rankings_ranking:
  "map ranking (assign_rankings xs) = map Some [1 ..< length xs + 1]"
proof -
  have "map ranking (assign_rankings xs) = map (Some \<circ> fst) (enumerate 1 xs)"
    by (simp add: assign_rankings_def case_prod_unfold comp_def)
  also have "\<dots> = map Some (map fst (enumerate 1 xs))" by (simp only: map_map)
  also have "\<dots> = map Some [1 ..< 1 + length xs]" by (simp only: map_fst_enumerate)
  also have "1 + length xs = length xs + 1" by (rule add.commute)
  finally show ?thesis .
qed

lemma assign_rankings_unrank:
  "map (\<lambda>n. n\<lparr>ranking := None\<rparr>) (assign_rankings xs) = map (\<lambda>n. n\<lparr>ranking := None\<rparr>) xs"
proof -
  have "map (\<lambda>n. n\<lparr>ranking := None\<rparr>) (assign_rankings xs)
      = map ((\<lambda>n. n\<lparr>ranking := None\<rparr>) \<circ> snd) (enumerate 1 xs)"
    by (simp add: assign_rankings_def case_prod_unfold comp_def)
  also have "\<dots> = map (\<lambda>n. n\<lparr>ranking := None\<rparr>) (map snd (enumerate 1 xs))" by (simp only: map_map)
  also have "\<dots> = map (\<lambda>n. n\<lparr>ranking := None\<rparr>) xs" by (simp only: map_snd_enumerate)
  finally show ?thesis .
qed

lemma assign_rankings_overall_score:
  "map overall_score (assign_rankings xs) = map overall_score xs"
proof -
  have "map overall_score (assign_rankings xs) = map (overall_score \<circ> snd) (enumerate 1 xs)"
    by (simp add: assign_rankings_def case_prod_unfold comp_def)
  also have "\<dots> = map overall_score (map snd (enumerate 1 xs))" by (simp only: map_map)
  also have "\<dots> = map overall_score xs" by (simp only: map_snd_enumerate)
  finally show ?thesis .
qed

lemma length_assign_rankings: "length (assign_rankings xs) = length xs"
  by (simp add: assign_rankings_def)

lemma rank_nonprofits_unfold:
  "rank_nonprofits an roi c nps =
     assign_rankings (sort_reverse overall_score (map (score_or_zero an roi c) nps))"
  by (cases nps)
     (simp_all add: rank_nonprofits_def Let_def sort_reverse_def assign_rankings_def)

text \<open>
  Claim C3. For every list of N organizations, \<open>rank_nonprofits\<close> returns all N of them
  (the scored inputs, permuted), sorted by overall score in descending order; the sort is
  stable, so organizations of equal score keep the order of the input; and the rank
  assigned at position i is i, so the ranks are 1, ..., N without gap or duplicate.
\<close>

theorem rank_nonprofits_sorted_stable_ranked:
  "length (rank_nonprofits an roi c nps) = length nps
   \<and> mset (map (\<lambda>n. n\<lparr>ranking := None\<rparr>) (rank_nonprofits an roi c nps))
       = mset (map (\<lambda>n. n\<lparr>ranking := None\<rparr>) (map (score_or_zero an roi c) nps))
   \<and> sorted_wrt (\<ge>) (map overall_score (rank_nonprofits an roi c nps))
   \<and> (\<forall>k. filter (\<lambda>n. overall_score n = k)
              (map (\<lambda>n. n\<lparr>ranking := None\<rparr>) (rank_nonprofits an roi c nps))
          = filter (\<lambda>n. overall_score n = k)
              (map (\<lambda>n. n\<lparr>ranking := None\<rparr>) (map (score_or_zero an roi c) nps)))
   \<and> map ranking (rank_nonprofits an roi c nps) = map Some [1 ..< length nps + 1]"
proof -
  let ?scored = "map (score_or_zero an roi c) nps"
  let ?sorted = "sort_reverse overall_score ?scored"
  let ?un = "\<lambda>n::Nonprofit. n\<lparr>ranking := None\<rparr>"
  have r: "rank_nonprofits an roi c nps = assign_rankings ?sorted"
    by (rule rank_nonprofits_unfold)
  have len: "length (rank_nonprofits an roi c nps) = length nps"
    by (simp add: r length_assign_rankings length_sort_reverse)
  have un: "map ?un (rank_nonprofits an roi c nps) = map ?un ?sorted"
    by (simp only: r assign_rankings_unrank)
  have perm: "mset (map ?un (rank_nonprofits an roi c nps)) = mset (map ?un ?scored)"
    by (simp only: un mset_map mset_sort_reverse)
  have desc: "sorted_wrt (\<ge>) (map overall_score (rank_nonprofits an roi c nps))"
    by (simp only: r assign_rankings_overall_score sort_reverse_descending)
  have stable: "filter (\<lambda>n. overall_score n = k) (map ?un (rank_nonprofits an roi c nps))
          = filter (\<lambda>n. overall_score n = k) (map ?un ?scored)" for k
  proof -
    have "filter (\<lambda>n. overall_score n = k) (map ?un ?sorted)
        = map ?un (filter (\<lambda>n. overall_score n = k) ?sorted)"
      by (simp add: filter_map comp_def)
    also have "\<dots> = map ?un (filter (\<lambda>n. overall_score n = k) ?scored)"
      by (simp only: sort_reverse_stable)
    also have "\<dots> = filter (\<lambda>n. overall_score n = k) (map ?un ?scored)"
      by (simp add: filter_map comp_def)
    finally show ?thesis by (simp only: un)
  qed
  have ranks: "map ranking (rank_nonprofits an roi c nps) = map Some [1 ..< length nps + 1]"
    by (simp add: r assign_rankings_ranking length_sort_reverse)
  from len perm desc stable ranks show ?thesis by blast
qed








section \<open>Mission-alignment narrative\<close>

lemma explanation_ignores_new_score:
  "explanation (analyze_alignment w sem mso np) = generate_explanation np"
  by (simp add: analyze_alignment_def Let_def)

text \<open>
  Claim C8 says that the label of the narrative is tiered by the score just computed. At a
  nonprofit that has not been analysed before, \<open>analyze_alignment\<close> computes the score
  0.92 and labels the narrative Limited with the printed score 0, and this is the
  explanation that \<open>explain_ranking\<close> reports after \<open>rank_nonprofits\<close>: the label is
  read from the mission alignment stored before the analysis.
\<close>

theorem analyze_alignment_label_from_stale_score:
  "score (analyze_alignment example_weights 1 1 np_no_history) = 0.92
   \<and> explanation (analyze_alignment example_weights 1 1 np_no_history) = (Limited, 0)
   \<and> map (\<lambda>y. (map_option score (mission_alignment y), explain_ranking_mission y))
        (rank_nonprofits (\<lambda>np. Inr (analyze_alignment example_weights 1 1 np)) example_roi
           RankingCriteria_default [np_no_history])
      = [(Some 0.92, Some (Limited, 0))]"
proof -
  have st: "calculate_stability_score np_no_history = 0.5"
    by (simp add: calculate_stability_score_def np_no_history_def)
  have lf: "get_latest_financials np_no_history = None"
    by (simp add: get_latest_financials_def np_no_history_def)
  have sm: "social_media np_no_history = []" by (simp add: np_no_history_def)
  have cap: "capacity_score np_no_history = 0.5"
    by (simp add: capacity_score_def lf sm)
  have sc: "score (analyze_alignment example_weights 1 1 np_no_history) = 0.92"
    by (simp add: analyze_alignment_def Let_def geographic_alignment_def
          partnership_potential_def st cap example_weights_def)
  have ma: "mission_alignment np_no_history = None" by (simp add: np_no_history_def)
  have ex: "explanation (analyze_alignment example_weights 1 1 np_no_history) = (Limited, 0)"
    by (simp add: explanation_ignores_new_score generate_explanation_def ma)
  have "map (\<lambda>y. (map_option score (mission_alignment y), explain_ranking_mission y))
        (rank_nonprofits (\<lambda>np. Inr (analyze_alignment example_weights 1 1 np)) example_roi
           RankingCriteria_default [np_no_history])
      = [(Some (score (analyze_alignment example_weights 1 1 np_no_history)),
          Some (explanation (analyze_alignment example_weights 1 1 np_no_history)))]"
    by (simp add: rank_nonprofits_def sort_reverse_def assign_rankings_def enumerate_eq_zip
          score_or_zero_def score_nonprofit_def example_roi_def Let_def
          explain_ranking_mission_def)
  with sc ex show ?thesis by simp
qed

section \<open>Geographic tiers\<close>

lemma truncate_make_org_info: "organization.truncate (make_org_info org d p) = org"
  by (cases org) (simp add: make_org_info_def organization.defs)

lemma priority_make_org_info: "priority (make_org_info org d p) = p"
  by (cases org) (simp add: make_org_info_def organization.defs)

lemma filter_by_location_eq:
  "filter_by_location loc nearby orgs (e0, c0, s0) =
     (e0 @ map (\<lambda>org. make_org_info org (''In '' @ city loc) 1)
            (filter (in_exact_city loc) orgs),
      c0 @ map (\<lambda>org. make_org_info org (''In '' @ county loc) 2)
            (filter (in_same_county loc nearby) orgs),
      s0 @ map (\<lambda>org. make_org_info org (''In '' @ state loc) 3)
            (filter (in_same_state loc nearby) orgs))"
  by (induction orgs arbitrary: e0 c0 s0) simp_all

lemma tiers_partition_mset:
  "mset (filter (in_exact_city loc) orgs) + mset (filter (in_same_county loc nearby) orgs)
     + mset (filter (in_same_state loc nearby) orgs) + mset (filter (in_no_tier loc nearby) orgs)
   = mset orgs"
  by (induction orgs) auto

text \<open>
  Claim C1 as stated has a fourth tier that receives every remaining candidate. The loop
  has three lists: a candidate of another state is in the input and in none of them.
\<close>

theorem other_state_candidate_in_no_tier:
  "filter_by_location loc_dallas nearby_dallas [org_austin, org_miami] ([], [], [])
     = ([], [], [make_org_info org_austin ''In TX'' 3])
   \<and> org_miami \<in> set [org_austin, org_miami]
   \<and> org_miami \<notin> set (map organization.truncate [make_org_info org_austin ''In TX'' 3])"
  by code_simp

text \<open>
  Claim C1, amended. The loop assigns each candidate to at most one of three tiers, testing
  in this order: exact if the location's city is not empty and equals the candidate's city
  up to letter case, else county if the candidate's city is a member of the nearby cities,
  else state if its state equals the location's state. A candidate that passes no test is
  dropped. The three tiers together with the dropped candidates contain every input
  candidate exactly once.
\<close>

theorem filter_by_location_three_tiers:
  assumes "filter_by_location loc nearby orgs ([], [], []) = (exact_city, same_county, same_state)"
  shows "exact_city = map (\<lambda>org. make_org_info org (''In '' @ city loc) 1)
                        (filter (in_exact_city loc) orgs)
       \<and> same_county = map (\<lambda>org. make_org_info org (''In '' @ county loc) 2)
                          (filter (in_same_county loc nearby) orgs)
       \<and> same_state = map (\<lambda>org. make_org_info org (''In '' @ state loc) 3)
                         (filter (in_same_state loc nearby) orgs)
       \<and> mset (map organization.truncate (exact_city @ same_county @ same_state))
           + mset (filter (in_no_tier loc nearby) orgs) = mset orgs"
proof -
  from assms have e: "exact_city = map (\<lambda>org. make_org_info org (''In '' @ city loc) 1)
                        (filter (in_exact_city loc) orgs)"
    and c: "same_county = map (\<lambda>org. make_org_info org (''In '' @ county loc) 2)
                          (filter (in_same_county loc nearby) orgs)"
    and s: "same_state = map (\<lambda>org. make_org_info org (''In '' @ state loc) 3)
                         (filter (in_same_state loc nearby) orgs)"
    by (simp_all add: filter_by_location_eq)
  have "map organization.truncate (exact_city @ same_county @ same_state)
      = filter (in_exact_city loc) orgs @ filter (in_same_county loc nearby) orgs
        @ filter (in_same_state loc nearby) orgs"
    by (simp add: e c s comp_def truncate_make_org_info)
  then have "mset (map organization.truncate (exact_city @ same_county @ same_state))
           + mset (filter (in_no_tier loc nearby) orgs) = mset orgs"
    using tiers_partition_mset [of loc orgs nearby] by (simp add: ac_simps)
  with e c s show ?thesis by blast
qed

theorem filter_by_location_three_tiers_witness:
  "filter_by_location loc_dallas nearby_dallas [org_dallas, org_irving, org_austin, org_miami]
       ([], [], [])
     = ([make_org_info org_dallas ''In Dallas'' 1],
        [make_org_info org_irving ''In Dallas County'' 2],
        [make_org_info org_austin ''In TX'' 3])
   \<and> mset (map organization.truncate
             ([make_org_info org_dallas ''In Dallas'' 1]
              @ [make_org_info org_irving ''In Dallas County'' 2]
              @ [make_org_info org_austin ''In TX'' 3]))
       + mset (filter (in_no_tier loc_dallas nearby_dallas)
                 [org_dallas, org_irving, org_austin, org_miami])
     = mset [org_dallas, org_irving, org_austin, org_miami]"
proof -
  have ev: "filter_by_location loc_dallas nearby_dallas
              [org_dallas, org_irving, org_austin, org_miami] ([], [], [])
     = ([make_org_info org_dallas ''In Dallas'' 1],
        [make_org_info org_irving ''In Dallas County'' 2],
        [make_org_info org_austin ''In TX'' 3])"
    by code_simp
  from filter_by_location_three_tiers [OF ev] ev show ?thesis by blast
qed

text \<open>
  Claim C6 says that a candidate whose city equals a nearby city up to letter case is in
  the county tier. At the candidate city IRVING, with Irving among the nearby cities of
  Dallas, the loop compares by string equality and puts the candidate into the state tier.
\<close>

theorem uppercase_county_city_lands_in_state_tier:
  "lower (org_city org_irving_upper) \<in> set (map lower nearby_dallas)
   \<and> lower (org_city org_irving_upper) \<noteq> lower (city loc_dallas)
   \<and> filter_by_location loc_dallas nearby_dallas [org_irving_upper] ([], [], [])
       = ([], [], [make_org_info org_irving_upper ''In TX'' 3])"
  by code_simp

lemma search_by_location_unfold:
  "search_by_location loc nearby orgs =
     \<lparr>results =
        take 10 (sort_reverse org_score
                  (map (\<lambda>org. make_org_info org (''In '' @ city loc) 1)
                     (filter (in_exact_city loc) orgs)))
        @ take 8 (sort_reverse org_score
                   (map (\<lambda>org. make_org_info org (''In '' @ county loc) 2)
                      (filter (in_same_county loc nearby) orgs)))
        @ take 2 (sort_reverse org_score
                   (map (\<lambda>org. make_org_info org (''In '' @ state loc) 3)
                      (filter (in_same_state loc nearby) orgs))),
      count_city = length (filter (in_exact_city loc) orgs),
      count_county = length (filter (in_same_county loc nearby) orgs),
      count_state = length (filter (in_same_state loc nearby) orgs),
      count_total = length orgs\<rparr>"
  by (simp add: search_by_location_def filter_by_location_eq Let_def length_sort_reverse)

lemma filter_priority_take_sorted:
  "filter (\<lambda>i. priority i = q)
     (take n (sort_reverse org_score (map (\<lambda>org. make_org_info org d p) xs)))
   = (if p = q then take n (sort_reverse org_score (map (\<lambda>org. make_org_info org d p) xs))
      else [])"
proof -
  have "\<forall>i \<in> set (take n (sort_reverse org_score (map (\<lambda>org. make_org_info org d p) xs))).
          priority i = p"
    by (auto dest!: in_set_takeD simp: set_sort_reverse priority_make_org_info)
  then show ?thesis
    by (cases "p = q") (auto simp: filter_empty_conv intro: filter_True)
qed

lemma tier_counts:
  "length (filter (\<lambda>i. priority i = 1) (results (search_by_location loc nearby orgs)))
     = min 10 (length (filter (in_exact_city loc) orgs))"
  "length (filter (\<lambda>i. priority i = 2) (results (search_by_location loc nearby orgs)))
     = min 8 (length (filter (in_same_county loc nearby) orgs))"
  "length (filter (\<lambda>i. priority i = 3) (results (search_by_location loc nearby orgs)))
     = min 2 (length (filter (in_same_state loc nearby) orgs))"
  by (simp_all add: search_by_location_unfold filter_priority_take_sorted length_sort_reverse
        min.commute)

lemma full_local_tiers_filters:
  "filter (in_exact_city loc_dallas) full_local_tiers = replicate 10 org_dallas"
  "filter (in_same_county loc_dallas nearby_dallas) full_local_tiers = replicate 8 org_irving"
  "filter (in_same_state loc_dallas nearby_dallas) full_local_tiers = [org_austin]"
  by code_simp+

lemma map_priority_take_sorted:
  "map priority (take n (sort_reverse org_score (map (\<lambda>org. make_org_info org d p) xs)))
   = replicate (min n (length xs)) p"
proof (rule replicate_eqI)
  show "length (map priority
          (take n (sort_reverse org_score (map (\<lambda>org. make_org_info org d p) xs))))
        = min n (length xs)"
    by (simp add: length_sort_reverse min.commute)
next
  fix y
  assume "y \<in> set (map priority
          (take n (sort_reverse org_score (map (\<lambda>org. make_org_info org d p) xs))))"
  then obtain i where "i \<in> set (sort_reverse org_score (map (\<lambda>org. make_org_info org d p) xs))"
    and "y = priority i"
    by (auto dest: in_set_takeD)
  then show "y = p"
    by (auto simp: set_sort_reverse priority_make_org_info)
qed

text \<open>
  Claim C5 as stated includes state-tier candidates only when the exact and county tiers
  are sparse. With both tiers filled to their caps (10 and 8) a state-tier candidate is
  still returned: the priorities of the returned list are ten times 1, eight times 2 and
  one 3.
\<close>

theorem state_tier_included_with_full_local_tiers:
  "map priority (results (search_by_location loc_dallas nearby_dallas full_local_tiers))
   = replicate 10 1 @ replicate 8 2 @ [3]"
proof -
  have "map priority (results (search_by_location loc_dallas nearby_dallas full_local_tiers))
      = replicate (min 10 (length (replicate 10 org_dallas))) 1
        @ replicate (min 8 (length (replicate 8 org_irving))) 2
        @ replicate (min 2 (length [org_austin])) 3"
    unfolding search_by_location_unfold full_local_tiers_filters
    by (simp only: search_response.simps map_append map_priority_take_sorted)
  then show ?thesis by simp
qed

lemma top_of_descending:
  assumes "sorted_wrt (\<ge>) (map key xs)"
  shows "list_all (\<lambda>x. list_all (\<lambda>y. key y \<le> key x) (drop n xs)) (take n xs)"
proof -
  from assms have "sorted_wrt (\<lambda>x y. key y \<le> key x) (take n xs @ drop n xs)"
    by (simp add: sorted_wrt_map)
  then show ?thesis
    by (simp only: sorted_wrt_append list_all_iff) blast
qed

text \<open>
  Claim C5, amended. The returned list contains at most 10 exact-tier candidates, at most
  8 county-tier candidates and at most 2 state-tier candidates. The state-tier candidates
  returned are the first min(2, n) of the n state-tier candidates in descending order of
  score (equal scores in input order), whatever the sizes of the exact and county tiers:
  every returned one scores at least as high as every one left out.
\<close>

theorem search_by_location_tier_caps:
  "length (filter (\<lambda>i. priority i = 1) (results (search_by_location loc nearby orgs))) \<le> 10
   \<and> length (filter (\<lambda>i. priority i = 2) (results (search_by_location loc nearby orgs))) \<le> 8
   \<and> length (filter (\<lambda>i. priority i = 3) (results (search_by_location loc nearby orgs))) \<le> 2
   \<and> length (filter (\<lambda>i. priority i = 3) (results (search_by_location loc nearby orgs)))
       = min 2 (length (filter (in_same_state loc nearby) orgs))
   \<and> length (results (search_by_location loc nearby orgs))
       = min 10 (length (filter (in_exact_city loc) orgs))
         + min 8 (length (filter (in_same_county loc nearby) orgs))
         + min 2 (length (filter (in_same_state loc nearby) orgs))
   \<and> results (search_by_location loc nearby orgs)
       = take 10 (sort_reverse org_score
                   (map (\<lambda>org. make_org_info org (''In '' @ city loc) 1)
                      (filter (in_exact_city loc) orgs)))
         @ take 8 (sort_reverse org_score
                    (map (\<lambda>org. make_org_info org (''In '' @ county loc) 2)
                       (filter (in_same_county loc nearby) orgs)))
         @ take 2 (sort_reverse org_score
                    (map (\<lambda>org. make_org_info org (''In '' @ state loc) 3)
                       (filter (in_same_state loc nearby) orgs)))
   \<and> filter (\<lambda>i. priority i = 3) (results (search_by_location loc nearby orgs))
       = take 2 (sort_reverse org_score
                  (map (\<lambda>org. make_org_info org (''In '' @ state loc) 3)
                     (filter (in_same_state loc nearby) orgs)))
   \<and> mset (sort_reverse org_score
              (map (\<lambda>org. make_org_info org (''In '' @ state loc) 3)
                 (filter (in_same_state loc nearby) orgs)))
       = mset (map (\<lambda>org. make_org_info org (''In '' @ state loc) 3)
                 (filter (in_same_state loc nearby) orgs))
   \<and> sorted_wrt (\<ge>)
        (map org_score
           (sort_reverse org_score
              (map (\<lambda>org. make_org_info org (''In '' @ state loc) 3)
                 (filter (in_same_state loc nearby) orgs))))
   \<and> (\<forall>k. filter (\<lambda>i. org_score i = k)
              (sort_reverse org_score
                 (map (\<lambda>org. make_org_info org (''In '' @ state loc) 3)
                    (filter (in_same_state loc nearby) orgs)))
            = filter (\<lambda>i. org_score i = k)
                (map (\<lambda>org. make_org_info org (''In '' @ state loc) 3)
                   (filter (in_same_state loc nearby) orgs)))
   \<and> list_all
        (\<lambda>x. list_all (\<lambda>y. org_score y \<le> org_score x)
               (drop 2 (sort_reverse org_score
                          (map (\<lambda>org. make_org_info org (''In '' @ state loc) 3)
                             (filter (in_same_state loc nearby) orgs)))))
        (filter (\<lambda>i. priority i = 3) (results (search_by_location loc nearby orgs)))"
proof -
  let ?S = "map (\<lambda>org. make_org_info org (''In '' @ state loc) 3)
              (filter (in_same_state loc nearby) orgs)"
  let ?r = "results (search_by_location loc nearby orgs)"
  have len: "length ?r
       = min 10 (length (filter (in_exact_city loc) orgs))
         + min 8 (length (filter (in_same_county loc nearby) orgs))
         + min 2 (length (filter (in_same_state loc nearby) orgs))"
    by (simp add: search_by_location_unfold length_sort_reverse min.commute)
  have a: "length (filter (\<lambda>i. priority i = 1) ?r) \<le> 10"
    unfolding tier_counts by (rule min.cobounded1)
  have b: "length (filter (\<lambda>i. priority i = 2) ?r) \<le> 8"
    unfolding tier_counts by (rule min.cobounded1)
  have c: "length (filter (\<lambda>i. priority i = 3) ?r) \<le> 2"
    unfolding tier_counts by (rule min.cobounded1)
  have res: "?r
       = take 10 (sort_reverse org_score
                   (map (\<lambda>org. make_org_info org (''In '' @ city loc) 1)
                      (filter (in_exact_city loc) orgs)))
         @ take 8 (sort_reverse org_score
                    (map (\<lambda>org. make_org_info org (''In '' @ county loc) 2)
                       (filter (in_same_county loc nearby) orgs)))
         @ take 2 (sort_reverse org_score ?S)"
    unfolding search_by_location_unfold by (simp only: search_response.simps)
  have st: "filter (\<lambda>i. priority i = 3) ?r = take 2 (sort_reverse org_score ?S)"
    unfolding res filter_append filter_priority_take_sorted by simp
  have ms: "mset (sort_reverse org_score ?S) = mset ?S"
    by (rule mset_sort_reverse)
  have desc: "sorted_wrt (\<ge>) (map org_score (sort_reverse org_score ?S))"
    by (rule sort_reverse_descending)
  have stab: "\<forall>k. filter (\<lambda>i. org_score i = k) (sort_reverse org_score ?S)
            = filter (\<lambda>i. org_score i = k) ?S"
    by (simp only: sort_reverse_stable) simp
  have top: "list_all
        (\<lambda>x. list_all (\<lambda>y. org_score y \<le> org_score x) (drop 2 (sort_reverse org_score ?S)))
        (filter (\<lambda>i. priority i = 3) ?r)"
    unfolding st by (rule top_of_descending [OF desc])
  from a b c tier_counts(3) [of loc nearby orgs] len res st ms desc stab top
  show ?thesis by blast
qed

theorem search_by_location_tier_caps_witness:
  "map org_score
     (filter (\<lambda>i. priority i = 3)
        (results (search_by_location loc_dallas nearby_dallas three_state_orgs)))
   = [5, 3]"
proof -
  have f: "filter (in_same_state loc_dallas nearby_dallas) three_state_orgs = three_state_orgs"
    by code_simp
  have srt: "sort_reverse org_score
          (map (\<lambda>org. make_org_info org (''In '' @ state loc_dallas) 3) three_state_orgs)
        = map (\<lambda>org. make_org_info org (''In '' @ state loc_dallas) 3)
            [org_austin\<lparr>org_score := 5\<rparr>, org_austin\<lparr>org_score := 3\<rparr>,
             org_austin\<lparr>org_score := 1\<rparr>]"
    by (simp add: sort_reverse_def three_state_orgs_def make_org_info_def organization.defs
          org_austin_def)
  from search_by_location_tier_caps [of loc_dallas nearby_dallas three_state_orgs]
  have "filter (\<lambda>i. priority i = 3)
          (results (search_by_location loc_dallas nearby_dallas three_state_orgs))
        = take 2 (sort_reverse org_score
                   (map (\<lambda>org. make_org_info org (''In '' @ state loc_dallas) 3)
                      (filter (in_same_state loc_dallas nearby_dallas) three_state_orgs)))"
    by blast
  also have "\<dots> = map (\<lambda>org. make_org_info org (''In '' @ state loc_dallas) 3)
                   [org_austin\<lparr>org_score := 5\<rparr>, org_austin\<lparr>org_score := 3\<rparr>]"
    unfolding f srt by simp
  finally show ?thesis
    by (simp add: make_org_info_def organization.defs)
qed

end
